theory Spec2Isabelle
  imports Complex_Main
begin

section \<open>Numbers, errors and the event table\<close>

text \<open>
  The analytics functions of \<^verbatim>\<open>analytics.py\<close> work on a pandas DataFrame of events and
  return Python and numpy floats. A float is modelled by its exact real value, or by one of
  the three special values of IEEE arithmetic that the code can produce by dividing by
  zero: both infinities and NaN. Rounding error of the finite values is not modelled
  (arithmetic on finite values is exact), and the sign of zero is not kept.
\<close>

datatype pyfloat = Fin real | PInf | NInf | NaN

text \<open>
  The exceptions. \<open>ZeroDivisionError\<close>, \<open>ValueError\<close> and \<open>KeyError\<close> are the built-in
  ones that the code and its libraries raise. The last three are the names of the
  specification's error taxonomy; no path of the source constructs them.
\<close>

datatype error =
    ZeroDivisionError
  | ValueError
  | KeyError
  | EmptyInputError
  | DivisionByZeroError
  | DegenerateClusteringError

text \<open>
  One row of the events table, with the columns of \<^verbatim>\<open>data_generator.load_data\<close>. A
  timestamp is a day number (the generator only produces midnights, and the analytics only
  read \<^verbatim>\<open>.dt.days\<close> and the calendar month).
\<close>

record event =
  user_id :: int
  event_date :: int
  event_type :: string
  revenue :: real
  device_type :: string
  acquisition_channel :: string
  experiment_group :: string
  signup_date :: int

type_synonym DataFrame = "event list"

subsection \<open>Float arithmetic\<close>

text \<open>numpy's true division of two floats: it never raises, a zero divisor gives an
  infinity or NaN.\<close>

fun fdiv :: "pyfloat \<Rightarrow> pyfloat \<Rightarrow> pyfloat" where
  "fdiv NaN y = NaN"
| "fdiv x NaN = NaN"
| "fdiv (Fin a) (Fin b) =
     (if b = 0 then (if a = 0 then NaN else if 0 < a then PInf else NInf) else Fin (a / b))"
| "fdiv (Fin a) PInf = Fin 0"
| "fdiv (Fin a) NInf = Fin 0"
| "fdiv PInf (Fin b) = (if 0 \<le> b then PInf else NInf)"
| "fdiv NInf (Fin b) = (if 0 \<le> b then NInf else PInf)"
| "fdiv PInf PInf = NaN"
| "fdiv PInf NInf = NaN"
| "fdiv NInf PInf = NaN"
| "fdiv NInf NInf = NaN"

fun fmul :: "pyfloat \<Rightarrow> pyfloat \<Rightarrow> pyfloat" where
  "fmul NaN y = NaN"
| "fmul x NaN = NaN"
| "fmul (Fin a) (Fin b) = Fin (a * b)"
| "fmul (Fin a) PInf = (if a = 0 then NaN else if 0 < a then PInf else NInf)"
| "fmul (Fin a) NInf = (if a = 0 then NaN else if 0 < a then NInf else PInf)"
| "fmul PInf (Fin b) = (if b = 0 then NaN else if 0 < b then PInf else NInf)"
| "fmul NInf (Fin b) = (if b = 0 then NaN else if 0 < b then NInf else PInf)"
| "fmul PInf PInf = PInf"
| "fmul PInf NInf = NInf"
| "fmul NInf PInf = NInf"
| "fmul NInf NInf = PInf"

fun fsub :: "pyfloat \<Rightarrow> pyfloat \<Rightarrow> pyfloat" where
  "fsub NaN y = NaN"
| "fsub x NaN = NaN"
| "fsub (Fin a) (Fin b) = Fin (a - b)"
| "fsub (Fin a) PInf = NInf"
| "fsub (Fin a) NInf = PInf"
| "fsub PInf (Fin b) = PInf"
| "fsub NInf (Fin b) = NInf"
| "fsub PInf PInf = NaN"
| "fsub PInf NInf = PInf"
| "fsub NInf PInf = NInf"
| "fsub NInf NInf = NaN"


text \<open>\<^verbatim>\<open>.round(1)\<close>: numpy scales by ten, rounds to the nearest integer with ties to the
  even one, and scales back; infinities and NaN pass through.\<close>

definition round_half_even :: "real \<Rightarrow> int" where
  "round_half_even y =
     (let f = \<lfloor>y\<rfloor>; d = y - of_int f
      in if d < 1 / 2 then f else if 1 / 2 < d then f + 1 else if even f then f else f + 1)"

fun fround1 :: "pyfloat \<Rightarrow> pyfloat" where
  "fround1 (Fin a) = Fin (of_int (round_half_even (a * 10)) / 10)"
| "fround1 x = x"

text \<open>Python's \<^verbatim>\<open>/\<close> on two \<^verbatim>\<open>int\<close>s raises on a zero divisor; the same operator with a
  numpy integer on the left is numpy's division and does not.\<close>

definition py_truediv :: "int \<Rightarrow> int \<Rightarrow> error + pyfloat" where
  "py_truediv a b = (if b = 0 then Inl ZeroDivisionError else Inr (Fin (of_int a / of_int b)))"

definition np_truediv :: "int \<Rightarrow> int \<Rightarrow> pyfloat" where
  "np_truediv a b = fdiv (Fin (of_int a)) (Fin (of_int b))"

subsection \<open>Series helpers\<close>

text \<open>\<^verbatim>\<open>Series.nunique()\<close>, a Python \<^verbatim>\<open>int\<close>.\<close>

definition nunique :: "'a list \<Rightarrow> int" where
  "nunique xs = int (length (remdups xs))"

text \<open>\<^verbatim>\<open>Series.max()\<close> of a datetime column: \<^verbatim>\<open>NaT\<close> (here \<open>None\<close>) when it is empty.\<close>

definition series_max :: "int list \<Rightarrow> int option" where
  "series_max xs = (if xs = [] then None else Some (Max (set xs)))"

text \<open>\<^verbatim>\<open>df.groupby("user_id")["event_date"]\<close> with an aggregation: one entry per user id
  present, in ascending order of the key; a group is never empty.\<close>

definition groupby_user_dates :: "DataFrame \<Rightarrow> (int \<times> int list) list" where
  "groupby_user_dates df =
     map (\<lambda>u. (u, map event_date (filter (\<lambda>e. user_id e = u) df)))
         (sort (remdups (map user_id df)))"

section \<open>KPI calculations\<close>

definition compute_conversion_rate :: "DataFrame \<Rightarrow> error + pyfloat" where
  "compute_conversion_rate df =
     (let total_users = nunique (map user_id df);
          converted = nunique (map user_id (filter (\<lambda>e. event_type e = ''purchase'') df))
      in case py_truediv converted total_users of
           Inl e \<Rightarrow> Inl e
         | Inr q \<Rightarrow> Inr (fmul q (Fin 100)))"

text \<open>In \<^verbatim>\<open>compute_retention_rate\<close>, \<^verbatim>\<open>retained\<close> is a numpy integer (the sum of a boolean
  series), so the final division is numpy's.\<close>

definition compute_retention_rate :: "DataFrame \<Rightarrow> int \<Rightarrow> pyfloat" where
  "compute_retention_rate df days =
     (let combined = map (\<lambda>(u, ds). (u, Min (set ds), Max (set ds))) (groupby_user_dates df);
          gap = map (\<lambda>(u, signup, last_active). last_active - signup) combined;
          retained = int (length (filter (\<lambda>g. days \<le> g) gap))
      in fmul (np_truediv retained (int (length combined))) (Fin 100))"

definition compute_churn_rate :: "DataFrame \<Rightarrow> int \<Rightarrow> pyfloat" where
  "compute_churn_rate df inactive_days =
     (let max_date = series_max (map event_date df);
          user_last = map (\<lambda>(u, ds). Max (set ds)) (groupby_user_dates df);
          churned = int (length (filter
            (\<lambda>l. case max_date of None \<Rightarrow> False | Some m \<Rightarrow> inactive_days \<le> m - l) user_last))
      in fmul (np_truediv churned (nunique (map user_id df))) (Fin 100))"

section \<open>Funnel analysis\<close>










section \<open>A/B testing\<close>

text \<open>The dictionary that \<^verbatim>\<open>compute_ab_test\<close> returns.\<close>

record ab_result =
  group_a_users :: int
  group_b_users :: int
  group_a_conversions :: int
  group_b_conversions :: int
  rate_a :: pyfloat
  rate_b :: pyfloat
  lift_pct :: pyfloat
  chi2 :: real
  p_value :: real
  significant :: bool

text \<open>
  \<^verbatim>\<open>scipy.stats.chi2_contingency\<close> on the table \<open>[[a, b], [c, d]]\<close>. It raises \<open>ValueError\<close>
  when an expected frequency is zero, that is when a row or a column of the table sums to
  zero. The statistic and the p-value are those of the library: the function \<open>stat\<close> that
  computes them is a parameter of the model.
\<close>

definition chi2_contingency ::
  "(int \<Rightarrow> int \<Rightarrow> int \<Rightarrow> int \<Rightarrow> real \<times> real) \<Rightarrow> int \<Rightarrow> int \<Rightarrow> int \<Rightarrow> int \<Rightarrow> error + real \<times> real" where
  "chi2_contingency stat a b c d =
     (if a + b = 0 \<or> c + d = 0 \<or> a + c = 0 \<or> b + d = 0 then Inl ValueError
      else Inr (stat a b c d))"

text \<open>
  \<^verbatim>\<open>df.groupby(["user_id", "experiment_group"])\<close> with the aggregation \<^verbatim>\<open>converted\<close>: one
  row per pair present, 1 when the rows of the pair hold a purchase. Only counts and sums
  of the groups are used, so the order of the keys is left as first seen.
\<close>

definition ab_groups :: "DataFrame \<Rightarrow> ((int \<times> string) \<times> int) list" where
  "ab_groups df =
     map (\<lambda>k. (k, if ''purchase'' \<in> set (map event_type
                        (filter (\<lambda>e. (user_id e, experiment_group e) = k) df))
                   then 1 else 0))
         (remdups (map (\<lambda>e. (user_id e, experiment_group e)) df))"

text \<open>
  \<^verbatim>\<open>conv_a\<close> and \<^verbatim>\<open>conv_b\<close> are numpy integers, so the rates and the lift are computed with
  numpy's division, which gives an infinity or NaN on a zero divisor and does not raise.
\<close>

definition compute_ab_test ::
  "(int \<Rightarrow> int \<Rightarrow> int \<Rightarrow> int \<Rightarrow> real \<times> real) \<Rightarrow> DataFrame \<Rightarrow> error + ab_result" where
  "compute_ab_test stat df =
     (let ab = ab_groups df;
          group_a = filter (\<lambda>((u, g), c). g = ''A'') ab;
          group_b = filter (\<lambda>((u, g), c). g = ''B'') ab;
          conv_a = sum_list (map snd group_a);
          conv_b = sum_list (map snd group_b);
          n_a = int (length group_a);
          n_b = int (length group_b);
          r_a = np_truediv conv_a n_a;
          r_b = np_truediv conv_b n_b;
          lift = fmul (fdiv (fsub r_b r_a) r_a) (Fin 100)
      in case chi2_contingency stat conv_a (n_a - conv_a) conv_b (n_b - conv_b) of
           Inl e \<Rightarrow> Inl e
         | Inr (c2, p) \<Rightarrow>
             Inr \<lparr>group_a_users = n_a, group_b_users = n_b,
                  group_a_conversions = conv_a, group_b_conversions = conv_b,
                  rate_a = fmul r_a (Fin 100), rate_b = fmul r_b (Fin 100),
                  lift_pct = lift, chi2 = c2, p_value = p,
                  significant = (p < 0.05)\<rparr>)"

section \<open>Cohort analysis\<close>

text \<open>
  \<^verbatim>\<open>.dt.to_period("M")\<close>: the calendar month of a day number counted from 1970-01-01, as
  the month's ordinal \<open>12 * year + (month - 1)\<close>. The difference of two periods (\<^verbatim>\<open>.n\<close>) is
  the difference of their ordinals.
\<close>

definition to_period_M :: "int \<Rightarrow> int" where
  "to_period_M d =
     (let z = d + 719468;
          era = z div 146097;
          doe = z - era * 146097;
          yoe = (doe - doe div 1460 + doe div 36524 - doe div 146096) div 365;
          doy = doe - (365 * yoe + yoe div 4 - yoe div 100);
          mp = (5 * doy + 2) div 153;
          m = (if mp < 10 then mp + 3 else mp - 9);
          y = yoe + era * 400 + (if m \<le> 2 then 1 else 0)
      in y * 12 + (m - 1))"

definition signup_month :: "event \<Rightarrow> int" where
  "signup_month e = to_period_M (signup_date e)"

definition event_month :: "event \<Rightarrow> int" where
  "event_month e = to_period_M (event_date e)"

text \<open>Cohort size: per signup month, the distinct users among the signup rows.\<close>

definition cohort_sizes :: "DataFrame \<Rightarrow> (int \<times> int) list" where
  "cohort_sizes df =
     (let signups = filter (\<lambda>e. event_type e = ''signup'') df
      in map (\<lambda>m. (m, nunique (map user_id (filter (\<lambda>e. signup_month e = m) signups))))
             (remdups (map signup_month signups)))"

text \<open>Monthly activity per user, with the period (months since signup) of each entry.\<close>

definition user_activity :: "DataFrame \<Rightarrow> (int \<times> int \<times> int) list" where
  "user_activity df =
     map (\<lambda>(u, s, e). (u, s, e - s))
         (remdups (map (\<lambda>e. (user_id e, signup_month e, event_month e)) df))"

text \<open>Active users per cohort and period, over the entries of period at least 0.\<close>

definition cohort_data :: "DataFrame \<Rightarrow> ((int \<times> int) \<times> int) list" where
  "cohort_data df =
     (let act = filter (\<lambda>(u, s, p). 0 \<le> p) (user_activity df)
      in map (\<lambda>k. (k, nunique (map fst (filter (\<lambda>(u, s, p). (s, p) = k) act))))
             (remdups (map snd act)))"

text \<open>The column \<^verbatim>\<open>retention\<close>: an elementwise division of integer columns, times 100,
  rounded to one decimal.\<close>

definition retention :: "int \<Rightarrow> int \<Rightarrow> pyfloat" where
  "retention active_users cohort_size =
     fround1 (fmul (fdiv (Fin (of_int active_users)) (Fin (of_int cohort_size))) (Fin 100))"

text \<open>
  The merge with the cohort sizes is an inner join on the signup month, and the pivot
  leaves a cell without entry absent. The matrix is the association list from (cohort
  month, period) to the retention; the month and the period stand for the labels
  \<^verbatim>\<open>str(month)\<close> and \<^verbatim>\<open>"M" + str(period)\<close> of the source, and the order of the keys is not
  modelled.
\<close>

definition compute_cohort_retention :: "DataFrame \<Rightarrow> ((int \<times> int) \<times> pyfloat) list" where
  "compute_cohort_retention df =
     concat (map (\<lambda>((s, p), active_users).
                    map (\<lambda>(m, cohort_size). ((s, p), retention active_users cohort_size))
                        (filter (\<lambda>(m, cohort_size). m = s) (cohort_sizes df)))
                 (cohort_data df))"

section \<open>User segmentation\<close>

text \<open>
  The clustering is scikit-learn's. Its pseudo-random generator is modelled by the seed it
  was created from and the number of draws made so far; the ambient generator of numpy is
  a state that every function of this section takes and returns.
\<close>

type_synonym rng = "int \<times> nat"

text \<open>
  The k-means iteration itself (initialisation, \<^verbatim>\<open>n_init\<close> restarts, Lloyd's steps) is a
  parameter of the model: a function of the generator it draws from, the number of
  clusters, \<^verbatim>\<open>n_init\<close> and the data, which returns one cluster id per row and the generator
  after its draws.
\<close>

type_synonym kmeans_algorithm = "rng \<Rightarrow> nat \<Rightarrow> nat \<Rightarrow> (real \<times> real \<times> real) list \<Rightarrow> nat list \<times> rng"

text \<open>One row of the table that \<^verbatim>\<open>compute_rfm_segments\<close> returns; a missing label (NaN in
  pandas) is \<open>None\<close>.\<close>

record rfm_row =
  rfm_user_id :: int
  recency :: int
  frequency :: int
  monetary :: real
  segment :: nat
  segment_label :: "string option"

text \<open>\<^verbatim>\<open>StandardScaler().fit_transform\<close>: each column minus its mean, over its population
  standard deviation (1 when that is zero); \<open>ValueError\<close> on a table without rows.\<close>

definition scale_column :: "real list \<Rightarrow> real list" where
  "scale_column xs =
     (let n = real (length xs);
          mean = sum_list xs / n;
          var = sum_list (map (\<lambda>x. (x - mean)\<^sup>2) xs) / n;
          scale = (if sqrt var = 0 then 1 else sqrt var)
      in map (\<lambda>x. (x - mean) / scale) xs)"

definition StandardScaler_fit_transform ::
  "(real \<times> real \<times> real) list \<Rightarrow> error + (real \<times> real \<times> real) list" where
  "StandardScaler_fit_transform X =
     (if X = [] then Inl ValueError
      else Inr (zip (scale_column (map fst X))
                 (zip (scale_column (map (fst \<circ> snd) X)) (scale_column (map (snd \<circ> snd) X)))))"

text \<open>
  \<^verbatim>\<open>KMeans(n_clusters, random_state, n_init).fit_predict(X)\<close>. scikit-learn raises
  \<open>ValueError\<close> when \<open>n_clusters\<close> is not positive or exceeds the number of rows. With an
  integer \<open>random_state\<close> it draws from a fresh generator made from that seed, and leaves the
  ambient generator alone; with \<open>None\<close> it draws from the ambient generator.
\<close>

definition KMeans_fit_predict ::
  "kmeans_algorithm \<Rightarrow> nat \<Rightarrow> int option \<Rightarrow> nat \<Rightarrow> (real \<times> real \<times> real) list \<Rightarrow> rng
     \<Rightarrow> (error + nat list) \<times> rng" where
  "KMeans_fit_predict lloyd n_clusters random_state n_init X g =
     (if n_clusters = 0 \<or> length X < n_clusters then (Inl ValueError, g)
      else case random_state of
             Some seed \<Rightarrow> (Inr (fst (lloyd (seed, 0) n_clusters n_init X)), g)
           | None \<Rightarrow> (case lloyd g n_clusters n_init X of (labels, g') \<Rightarrow> (Inr labels, g')))"

text \<open>The aggregation of \<^verbatim>\<open>compute_rfm_segments\<close>: per user, in ascending order of the id,
  the days from the user's latest event to the latest event of the table, the number of
  events and the sum of revenue.\<close>

definition rfm_features :: "DataFrame \<Rightarrow> (int \<times> int \<times> int \<times> real) list" where
  "rfm_features df =
     map (\<lambda>u. let rows = filter (\<lambda>e. user_id e = u) df
              in (u, Max (set (map event_date df)) - Max (set (map event_date rows)),
                  int (length rows), sum_list (map revenue rows)))
         (sort (remdups (map user_id df)))"

text \<open>
  \<^verbatim>\<open>rfm.groupby("segment")["monetary"].mean().sort_values(ascending=False).index\<close>: the
  cluster ids present, by descending mean of \<open>monetary\<close>. The order among clusters of equal
  mean is not fixed by pandas; here they stay in ascending order of the id.
\<close>

definition segment_mean :: "(nat \<times> real) list \<Rightarrow> nat \<Rightarrow> real" where
  "segment_mean sm s =
     (let ms = map snd (filter (\<lambda>(s', m). s' = s) sm) in sum_list ms / real (length ms))"

definition rank_segments :: "(nat \<times> real) list \<Rightarrow> nat list" where
  "rank_segments sm = sort_key (\<lambda>s. - segment_mean sm s) (sort (remdups (map fst sm)))"

definition SEGMENT_NAMES :: "string list" where
  "SEGMENT_NAMES = [''Champions'', ''Loyal'', ''At-Risk'', ''Low-Value'']"

text \<open>\<^verbatim>\<open>zip\<close> pairs the ranked clusters with the names and stops at the shorter list;
  \<^verbatim>\<open>Series.map\<close> with the resulting dictionary gives a missing value for an absent key.\<close>

definition compute_rfm_segments ::
  "kmeans_algorithm \<Rightarrow> DataFrame \<Rightarrow> nat \<Rightarrow> rng \<Rightarrow> (error + rfm_row list) \<times> rng" where
  "compute_rfm_segments lloyd df n_clusters g =
     (let rfm = rfm_features df
      in case StandardScaler_fit_transform
                (map (\<lambda>(u, r, f, m). (real_of_int r, real_of_int f, m)) rfm) of
           Inl e \<Rightarrow> (Inl e, g)
         | Inr rfm_scaled \<Rightarrow>
             (case KMeans_fit_predict lloyd n_clusters (Some 42) 10 rfm_scaled g of
                (Inl e, g') \<Rightarrow> (Inl e, g')
              | (Inr labels, g') \<Rightarrow>
                  (let seg_labels = map_of (zip (rank_segments (zip labels (map (\<lambda>(u, r, f, m). m) rfm)))
                                               (take n_clusters SEGMENT_NAMES))
                   in (Inr (map (\<lambda>((u, r, f, m), s).
                                   \<lparr>rfm_user_id = u, recency = r, frequency = f, monetary = m,
                                    segment = s, segment_label = seg_labels s\<rparr>)
                                (zip rfm labels)),
                       g'))))"


section \<open>Notions used to state the properties, and test data\<close>

text \<open>The event dates of one user in a table.\<close>

definition user_dates :: "DataFrame \<Rightarrow> int \<Rightarrow> int set" where
  "user_dates df u = event_date ` {e \<in> set df. user_id e = u}"

text \<open>A row with the two columns that no analytics function reads filled in.\<close>

definition mk_event :: "int \<Rightarrow> int \<Rightarrow> string \<Rightarrow> real \<Rightarrow> string \<Rightarrow> int \<Rightarrow> event" where
  "mk_event u d t r g s =
     \<lparr>user_id = u, event_date = d, event_type = t, revenue = r, device_type = ''desktop'',
      acquisition_channel = ''organic'', experiment_group = g, signup_date = s\<rparr>"

text \<open>User 1 signs up on day 0 and logs in on day 40; user 2 only signs up, on day 5.\<close>

definition two_users :: DataFrame where
  "two_users = [mk_event 1 0 ''signup'' 0 ''A'' 0, mk_event 2 5 ''signup'' 0 ''B'' 5,
                mk_event 1 40 ''login'' 0 ''A'' 0]"

text \<open>Scenario A of the specification: three users, each with only a signup on day 1.\<close>

definition scenario_A :: DataFrame where
  "scenario_A = [mk_event 1 1 ''signup'' 0 ''A'' 1, mk_event 2 1 ''signup'' 0 ''B'' 1,
                 mk_event 3 1 ''signup'' 0 ''A'' 1]"


text \<open>Group A: one user without purchase. Group B: one user with a purchase.\<close>

definition zero_a :: DataFrame where
  "zero_a = [mk_event 1 0 ''signup'' 0 ''A'' 0, mk_event 2 0 ''signup'' 0 ''B'' 0,
             mk_event 2 3 ''purchase'' 40 ''B'' 0]"

text \<open>Two users in each group, one purchase in each.\<close>

definition half_a :: DataFrame where
  "half_a = [mk_event 1 0 ''signup'' 0 ''A'' 0, mk_event 2 0 ''signup'' 0 ''B'' 0,
             mk_event 2 3 ''purchase'' 40 ''B'' 0, mk_event 3 1 ''signup'' 0 ''A'' 1,
             mk_event 3 2 ''purchase'' 10 ''A'' 1, mk_event 4 1 ''signup'' 0 ''B'' 1]"

text \<open>Five users with one purchase each, of different amounts.\<close>

definition five_users :: DataFrame where
  "five_users = [mk_event 1 0 ''purchase'' 10 ''A'' 0, mk_event 2 0 ''purchase'' 50 ''B'' 0,
                 mk_event 3 0 ''purchase'' 30 ''A'' 0, mk_event 4 0 ''purchase'' 20 ''B'' 0,
                 mk_event 5 0 ''purchase'' 40 ''A'' 0]"


definition state_dependent :: kmeans_algorithm where
  "state_dependent g k n X =
     (case g of (seed, draws) \<Rightarrow>
        (replicate (length X) (nat (seed + int draws) mod k), (seed, draws + n)))"


text \<open>The invariants of the data model that the cohort property needs: every user of the
  table has a signup event, and the column \<open>signup_date\<close> holds the earliest event date of
  the row's user.\<close>

definition signup_invariants :: "DataFrame \<Rightarrow> bool" where
  "signup_invariants df =
     (\<forall>e\<in>set df.
        (\<exists>s\<in>set df. user_id s = user_id e \<and> event_type s = ''signup'')
        \<and> signup_date e = Min (set (map event_date (filter (\<lambda>x. user_id x = user_id e) df))))"


section \<open>Properties\<close>

subsection \<open>Users of a table\<close>

lemma set_group_dates:
  "set (map event_date (filter (\<lambda>e. user_id e = u) df)) = user_dates df u"
  by (auto simp: user_dates_def)

lemma length_users: "length (sort (remdups (map user_id df))) = card (user_id ` set df)"
proof -
  have "distinct (sort (remdups (map user_id df)))" by simp
  then have "card (set (sort (remdups (map user_id df)))) = length (sort (remdups (map user_id df)))"
    by (rule distinct_card)
  then show ?thesis by simp
qed

lemma count_users:
  "length (filter P (sort (remdups (map user_id df)))) = card {u \<in> user_id ` set df. P u}"
proof -
  have "length (filter P (sort (remdups (map user_id df))))
        = card ({u. P u} \<inter> set (sort (remdups (map user_id df))))"
    by (rule distinct_length_filter) simp
  also have "{u. P u} \<inter> set (sort (remdups (map user_id df))) = {u \<in> user_id ` set df. P u}"
    by auto
  finally show ?thesis .
qed

lemma nunique_users: "nunique (map user_id df) = int (card (user_id ` set df))"
  by (simp add: nunique_def length_remdups_card_conv)

lemma np_truediv_pos: "b \<noteq> 0 \<Longrightarrow> np_truediv a b = Fin (of_int a / of_int b)"
  by (simp add: np_truediv_def)

subsection \<open>Conversion rate\<close>

lemma nunique_zero_iff: "nunique xs = 0 \<longleftrightarrow> xs = []"
  by (simp add: nunique_def)

text \<open>
  Claim C2, as stated: on a collection with zero distinct users \<open>conversion_rate\<close> raises
  \<open>EmptyInputError\<close>. The code has no such exception: both operands of the division are
  Python integers, and the empty table makes the division raise the built-in
  \<open>ZeroDivisionError\<close>.
\<close>

theorem conversion_rate_empty_not_EmptyInputError:
  "compute_conversion_rate [] \<noteq> Inl EmptyInputError"
  by (simp add: compute_conversion_rate_def py_truediv_def nunique_def)

text \<open>
  Claim C2, amended: for every collection with zero distinct users,
  \<open>compute_conversion_rate\<close> fails with \<open>ZeroDivisionError\<close>; it returns no value (neither
  0 nor NaN nor anything else).
\<close>

theorem conversion_rate_no_users_raises:
  "nunique (map user_id df) = 0 \<Longrightarrow> compute_conversion_rate df = Inl ZeroDivisionError"
  by (simp add: compute_conversion_rate_def py_truediv_def nunique_zero_iff)

theorem conversion_rate_no_users_raises_witness:
  "nunique (map user_id ([] :: DataFrame)) = 0
   \<and> compute_conversion_rate [] = Inl ZeroDivisionError"
  using conversion_rate_no_users_raises [of "[]"] by (simp add: nunique_def)


subsection \<open>Retention rate\<close>

text \<open>
  Claim C5: on a non-empty collection, for every horizon, \<open>retention_rate\<close> is the number of
  users whose gap between latest and earliest event date is at least the horizon, divided
  by the number of distinct users, times 100. A user with a single event has gap 0 and is
  not among the users retained at the default horizon of 30 days.
\<close>

theorem retention_rate_formula:
  assumes "df \<noteq> []"
  shows "compute_retention_rate df days =
           Fin (real (card {u \<in> user_id ` set df. days \<le> Max (user_dates df u) - Min (user_dates df u)})
                / real (card (user_id ` set df)) * 100)
         \<and> (filter (\<lambda>e. user_id e = u) df = [e0] \<longrightarrow>
              Max (user_dates df u) - Min (user_dates df u) = 0
              \<and> u \<notin> {u \<in> user_id ` set df. 30 \<le> Max (user_dates df u) - Min (user_dates df u)})"
proof -
  let ?us = "sort (remdups (map user_id df))"
  let ?gap = "\<lambda>u. Max (user_dates df u) - Min (user_dates df u)"
  have gaps: "map (\<lambda>(u, signup, last_active). last_active - signup)
          (map (\<lambda>(u, ds). (u, Min (set ds), Max (set ds))) (groupby_user_dates df)) = map ?gap ?us"
    by (simp add: groupby_user_dates_def comp_def set_group_dates[simplified])
  have len: "length (map (\<lambda>(u, ds). (u, Min (set ds), Max (set ds))) (groupby_user_dates df)) = card (user_id ` set df)"
    by (simp add: groupby_user_dates_def length_users[simplified])
  have cnt: "length (filter (\<lambda>g. days \<le> g) (map ?gap ?us)) = card {u \<in> user_id ` set df. days \<le> ?gap u}"
    by (simp only: filter_map comp_def length_map count_users)
  have pos: "int (card (user_id ` set df)) \<noteq> 0"
    using assms by simp
  have rate: "compute_retention_rate df days =
           Fin (real (card {u \<in> user_id ` set df. days \<le> ?gap u}) / real (card (user_id ` set df)) * 100)"
    unfolding compute_retention_rate_def Let_def gaps len cnt
    by (simp add: np_truediv_pos[OF pos])
  have single: "?gap u = 0 \<and> u \<notin> {u \<in> user_id ` set df. 30 \<le> ?gap u}"
    if "filter (\<lambda>e. user_id e = u) df = [e0]"
  proof -
    have "user_dates df u = {event_date e0}"
      using that by (simp add: set_group_dates[symmetric])
    then show ?thesis by simp
  qed
  from rate single show ?thesis by blast
qed

theorem retention_rate_formula_witness:
  "two_users \<noteq> []
   \<and> filter (\<lambda>e. user_id e = 2) two_users = [mk_event 2 5 ''signup'' 0 ''B'' 5]
   \<and> compute_retention_rate two_users 30 = Fin 50
   \<and> Max (user_dates two_users 2) - Min (user_dates two_users 2) = 0"
  using retention_rate_formula [of two_users 30 2 "mk_event 2 5 ''signup'' 0 ''B'' 5"]
  by (simp add: two_users_def mk_event_def compute_retention_rate_def groupby_user_dates_def
      np_truediv_def set_group_dates[symmetric])


subsection \<open>Churn rate\<close>

text \<open>
  Claim C6: on a non-empty collection, for every \<open>inactive_days\<close>, the reference date of
  \<open>churn_rate\<close> is the latest event date of the collection; a user is churned exactly when
  the reference minus the user's latest event date is at least \<open>inactive_days\<close>; the rate
  is churned users over distinct users, times 100. When every user's latest event is on the
  reference date, \<open>churn_rate(60)\<close> is 0.
\<close>

theorem churn_rate_formula:
  assumes "df \<noteq> []"
  shows "compute_churn_rate df inactive_days =
           Fin (real (card {u \<in> user_id ` set df.
                              inactive_days \<le> Max (event_date ` set df) - Max (user_dates df u)})
                / real (card (user_id ` set df)) * 100)
         \<and> ((\<forall>u \<in> user_id ` set df. Max (user_dates df u) = Max (event_date ` set df)) \<longrightarrow>
              compute_churn_rate df 60 = Fin 0)"
proof -
  let ?us = "sort (remdups (map user_id df))"
  let ?ref = "Max (event_date ` set df)"
  have ref: "series_max (map event_date df) = Some ?ref"
    using assms by (simp add: series_max_def)
  have lasts: "map (\<lambda>(u, ds). Max (set ds)) (groupby_user_dates df) = map (\<lambda>u. Max (user_dates df u)) ?us"
    by (simp add: groupby_user_dates_def comp_def set_group_dates[simplified])
  have pos: "int (card (user_id ` set df)) \<noteq> 0"
    using assms by simp
  have rate: "compute_churn_rate df n =
           Fin (real (card {u \<in> user_id ` set df. n \<le> ?ref - Max (user_dates df u)})
                / real (card (user_id ` set df)) * 100)" for n
    unfolding compute_churn_rate_def Let_def ref lasts nunique_users
    by (simp only: filter_map comp_def length_map count_users option.case np_truediv_pos[OF pos] fmul.simps)
       simp
  have zero: "compute_churn_rate df 60 = Fin 0"
    if "\<forall>u \<in> user_id ` set df. Max (user_dates df u) = ?ref"
  proof -
    have "{u \<in> user_id ` set df. 60 \<le> ?ref - Max (user_dates df u)} = {}"
      using that by auto
    then show ?thesis by (simp add: rate)
  qed
  from rate zero show ?thesis by blast
qed

theorem churn_rate_formula_witness:
  "scenario_A \<noteq> []
   \<and> user_id ` set scenario_A = {1, 2, 3}
   \<and> Max (user_dates scenario_A 1) = Max (event_date ` set scenario_A)
   \<and> Max (user_dates scenario_A 2) = Max (event_date ` set scenario_A)
   \<and> Max (user_dates scenario_A 3) = Max (event_date ` set scenario_A)
   \<and> compute_churn_rate scenario_A 60 = Fin 0"
  using churn_rate_formula [of scenario_A 60]
  by (simp add: scenario_A_def mk_event_def set_group_dates[symmetric])

subsection \<open>Funnel table\<close>














subsection \<open>Bottleneck\<close>















subsection \<open>A/B test\<close>

lemma ab_groups_conv_nonneg: "0 \<le> sum_list (map snd (filter P (ab_groups df)))"
  by (rule sum_list_nonneg) (auto simp: ab_groups_def)

text \<open>
  Claim C3, as stated: with both groups non-empty and no conversion in group A, the A/B
  test raises \<open>DivisionByZeroError\<close> and never returns a result that contains infinity. On
  the table \<open>zero_a\<close> the code returns a result, with \<open>rate_a = 0\<close> and \<open>lift_pct\<close> infinite,
  whatever the chi-square routine computes.
\<close>

theorem ab_test_zero_rate_a_returns_infinity:
  "\<forall>stat. \<exists>r. compute_ab_test stat zero_a = Inr r \<and> group_a_users r = 1 \<and> group_b_users r = 1
          \<and> rate_a r = Fin 0 \<and> lift_pct r = PInf"
proof
  fix stat :: "int \<Rightarrow> int \<Rightarrow> int \<Rightarrow> int \<Rightarrow> real \<times> real"
  show "\<exists>r. compute_ab_test stat zero_a = Inr r \<and> group_a_users r = 1 \<and> group_b_users r = 1
          \<and> rate_a r = Fin 0 \<and> lift_pct r = PInf"
    by (cases "stat 0 1 1 0") (simp add: compute_ab_test_def ab_groups_def chi2_contingency_def zero_a_def half_a_def
      mk_event_def np_truediv_def Let_def)
qed

text \<open>
  Claim C3, amended: the A/B test never raises \<open>DivisionByZeroError\<close>. Whenever it returns
  a result, both groups are non-empty; if \<open>rate_a\<close> is 0 the returned \<open>lift_pct\<close> is
  \<open>+infinity\<close>; if \<open>rate_a\<close> is not 0, then it is positive and \<open>lift_pct\<close> equals
  \<open>(rate_b - rate_a) / rate_a * 100\<close>.
\<close>

theorem ab_test_lift:
  "compute_ab_test stat df \<noteq> Inl DivisionByZeroError
   \<and> (compute_ab_test stat df = Inr r \<longrightarrow>
        0 < group_a_users r \<and> 0 < group_b_users r
        \<and> (rate_a r = Fin 0 \<longrightarrow> lift_pct r = PInf)
        \<and> (rate_a r \<noteq> Fin 0 \<longrightarrow>
             (\<exists>x y. rate_a r = Fin x \<and> rate_b r = Fin y \<and> 0 < x
                    \<and> lift_pct r = Fin ((y - x) / x * 100))))"
proof -
  define group_a where "group_a = filter (\<lambda>((u, g), c). g = ''A'') (ab_groups df)"
  define group_b where "group_b = filter (\<lambda>((u, g), c). g = ''B'') (ab_groups df)"
  define ca where "ca = sum_list (map snd group_a)"
  define cb where "cb = sum_list (map snd group_b)"
  define na where "na = int (length group_a)"
  define nb where "nb = int (length group_b)"
  have nonneg: "0 \<le> ca" "0 \<le> cb" "0 \<le> na" "0 \<le> nb"
    by (simp_all add: ca_def cb_def na_def nb_def group_a_def group_b_def ab_groups_conv_nonneg)
  have unf: "compute_ab_test stat df =
      (case chi2_contingency stat ca (na - ca) cb (nb - cb) of
           Inl e \<Rightarrow> Inl e
         | Inr (c2, p) \<Rightarrow>
             Inr \<lparr>group_a_users = na, group_b_users = nb,
                  group_a_conversions = ca, group_b_conversions = cb,
                  rate_a = fmul (np_truediv ca na) (Fin 100), rate_b = fmul (np_truediv cb nb) (Fin 100),
                  lift_pct = fmul (fdiv (fsub (np_truediv cb nb) (np_truediv ca na)) (np_truediv ca na)) (Fin 100),
                  chi2 = c2, p_value = p, significant = (p < 0.05)\<rparr>)"
    unfolding compute_ab_test_def Let_def ca_def cb_def na_def nb_def group_a_def group_b_def
    by (rule refl)
  have no_dbz: "compute_ab_test stat df \<noteq> Inl DivisionByZeroError"
    unfolding unf by (auto simp: chi2_contingency_def split: prod.splits)
  have ret: "0 < group_a_users r \<and> 0 < group_b_users r
        \<and> (rate_a r = Fin 0 \<longrightarrow> lift_pct r = PInf)
        \<and> (rate_a r \<noteq> Fin 0 \<longrightarrow>
             (\<exists>x y. rate_a r = Fin x \<and> rate_b r = Fin y \<and> 0 < x
                    \<and> lift_pct r = Fin ((y - x) / x * 100)))"
    if R: "compute_ab_test stat df = Inr r"
  proof -
    from R have m: "na \<noteq> 0" "nb \<noteq> 0" "ca + cb \<noteq> 0"
      unfolding unf by (auto simp: chi2_contingency_def split: if_splits)
    have pos: "0 < na" "0 < nb" using m nonneg by auto
    obtain c2 p where st: "stat ca (na - ca) cb (nb - cb) = (c2, p)" by (cases "stat ca (na - ca) cb (nb - cb)")
    from R have r: "r = \<lparr>group_a_users = na, group_b_users = nb,
                  group_a_conversions = ca, group_b_conversions = cb,
                  rate_a = fmul (np_truediv ca na) (Fin 100), rate_b = fmul (np_truediv cb nb) (Fin 100),
                  lift_pct = fmul (fdiv (fsub (np_truediv cb nb) (np_truediv ca na)) (np_truediv ca na)) (Fin 100),
                  chi2 = c2, p_value = p, significant = (p < 0.05)\<rparr>"
      unfolding unf by (auto simp: chi2_contingency_def st split: if_splits)
    have ra: "np_truediv ca na = Fin (real_of_int ca / real_of_int na)"
      and rb: "np_truediv cb nb = Fin (real_of_int cb / real_of_int nb)"
      using m by (simp_all add: np_truediv_pos)
    have z: "lift_pct r = PInf" if "rate_a r = Fin 0"
    proof -
      from that have "ca = 0" using m by (simp add: r ra)
      then have "0 < cb" using m nonneg by auto
      then show ?thesis using \<open>ca = 0\<close> pos by (simp add: r rb np_truediv_def)
    qed
    have nz: "\<exists>x y. rate_a r = Fin x \<and> rate_b r = Fin y \<and> 0 < x
                    \<and> lift_pct r = Fin ((y - x) / x * 100)" if "rate_a r \<noteq> Fin 0"
    proof -
      from that have "ca \<noteq> 0" by (auto simp: r ra)
      then have cap: "0 < ca" using nonneg by auto
      let ?x = "real_of_int ca / real_of_int na * 100"
      let ?y = "real_of_int cb / real_of_int nb * 100"
      have "rate_a r = Fin ?x" "rate_b r = Fin ?y" by (simp_all add: r ra rb)
      moreover have "0 < ?x" using cap pos by simp
      moreover have "lift_pct r = Fin ((?y - ?x) / ?x * 100)"
        using cap pos by (simp add: r ra rb field_simps)
      ultimately show ?thesis by blast
    qed
    show ?thesis using pos z nz by (simp add: r)
  qed
  from no_dbz ret show ?thesis by blast
qed

theorem ab_test_lift_witness:
  "compute_ab_test (\<lambda>a b c d. (0, 1)) half_a
     = Inr \<lparr>group_a_users = 2, group_b_users = 2, group_a_conversions = 1, group_b_conversions = 1,
            rate_a = Fin 50, rate_b = Fin 50, lift_pct = Fin 0, chi2 = 0, p_value = 1,
            significant = False\<rparr>
   \<and> Fin 50 \<noteq> Fin 0
   \<and> compute_ab_test (\<lambda>a b c d. (0, 1)) zero_a
     = Inr \<lparr>group_a_users = 1, group_b_users = 1, group_a_conversions = 0, group_b_conversions = 1,
            rate_a = Fin 0, rate_b = Fin 100, lift_pct = PInf, chi2 = 0, p_value = 1,
            significant = False\<rparr>"
  using ab_test_lift [of "\<lambda>a b c d. (0, 1)" half_a]
  by (simp add: compute_ab_test_def ab_groups_def chi2_contingency_def zero_a_def half_a_def
      mk_event_def np_truediv_def Let_def)



subsection \<open>User segmentation\<close>





text \<open>
  Claim C7: two invocations of the segmentation on the same input give the same output
  (the same recency, frequency, monetary, cluster id and label for every user, or the same
  failure), whatever the state of the ambient generator at each invocation; and an
  invocation leaves the ambient generator as it found it. The reason is the fixed
  \<^verbatim>\<open>random_state=42\<close>.
\<close>

theorem rfm_deterministic:
  "fst (compute_rfm_segments lloyd df n_clusters g1) = fst (compute_rfm_segments lloyd df n_clusters g2)
   \<and> snd (compute_rfm_segments lloyd df n_clusters g1) = g1"
  by (simp add: compute_rfm_segments_def KMeans_fit_predict_def Let_def split: sum.splits)








theorem rfm_deterministic_witness:
  "fst (compute_rfm_segments state_dependent five_users 2 (1, 7))
     = fst (compute_rfm_segments state_dependent five_users 2 (42, 0))
   \<and> snd (compute_rfm_segments state_dependent five_users 2 (1, 7)) = (1, 7)"
  by (rule rfm_deterministic)






subsection \<open>Cohort retention\<close>

lemma to_period_M_samples:
  "to_period_M 0 = 23640" "to_period_M 5 = 23640" "to_period_M 30 = 23640" "to_period_M 31 = 23641"
  "to_period_M 40 = 23641" "to_period_M 58 = 23641" "to_period_M 59 = 23642"
  "to_period_M 19358 = 2023 * 12" "to_period_M 19357 = 2022 * 12 + 11"
  "to_period_M 19782 = 2024 * 12 + 1" "to_period_M 19783 = 2024 * 12 + 2"
  "to_period_M (-1) = 1969 * 12 + 11"
  by code_simp+

lemma two_users_matrix:
  "compute_cohort_retention two_users = [((23640, 0), Fin 100), ((23640, 1), Fin 50)]"
  by (simp add: compute_cohort_retention_def cohort_data_def user_activity_def cohort_sizes_def
      signup_month_def event_month_def to_period_M_samples two_users_def mk_event_def nunique_def Let_def
      round_half_even_def retention_def)


lemma user_activity_iff:
  "(u, s, p) \<in> set (user_activity df) \<longleftrightarrow>
     (\<exists>e\<in>set df. u = user_id e \<and> s = signup_month e \<and> p = event_month e - signup_month e)"
  by (auto simp: user_activity_def image_iff)

lemma cohort_data_iff:
  "((s, p), a) \<in> set (cohort_data df) \<longleftrightarrow>
     (\<exists>u. (u, s, p) \<in> set (user_activity df)) \<and> 0 \<le> p
     \<and> a = int (card {u. (u, s, p) \<in> set (user_activity df)})"
proof -
  let ?act = "filter (\<lambda>(u, s, p). 0 \<le> p) (user_activity df)"
  have val: "nunique (map fst (filter (\<lambda>(u, s', p'). (s', p') = (s, p)) ?act))
             = int (card {u. (u, s, p) \<in> set (user_activity df)})" if "0 \<le> p"
  proof -
    have "set (map fst (filter (\<lambda>(u, s', p'). (s', p') = (s, p)) ?act))
          = {u. (u, s, p) \<in> set (user_activity df)}"
      using that by (auto simp: image_iff)
    then show ?thesis by (simp add: nunique_def length_remdups_card_conv)
  qed
  show ?thesis
    using val by (auto simp: cohort_data_def Let_def image_iff)
qed

lemma cohort_sizes_iff:
  "(m, n) \<in> set (cohort_sizes df) \<longleftrightarrow>
     (\<exists>e\<in>set df. event_type e = ''signup'' \<and> signup_month e = m)
     \<and> n = int (card (user_id ` {e \<in> set df. event_type e = ''signup'' \<and> signup_month e = m}))"
proof -
  have "set (map user_id (filter (\<lambda>e. signup_month e = m) (filter (\<lambda>e. event_type e = ''signup'') df)))
        = user_id ` {e \<in> set df. event_type e = ''signup'' \<and> signup_month e = m}"
    by auto
  then have val: "nunique (map user_id (filter (\<lambda>e. signup_month e = m) (filter (\<lambda>e. event_type e = ''signup'') df)))
        = int (card (user_id ` {e \<in> set df. event_type e = ''signup'' \<and> signup_month e = m}))"
    by (simp only: nunique_def length_remdups_card_conv)
  show ?thesis
    using val by (auto simp: cohort_sizes_def Let_def image_iff)
qed

lemma cohort_retention_iff:
  "((s, p), v) \<in> set (compute_cohort_retention df) \<longleftrightarrow>
     (\<exists>a n. ((s, p), a) \<in> set (cohort_data df) \<and> (s, n) \<in> set (cohort_sizes df)
            \<and> v = retention a n)"
  by (force simp: compute_cohort_retention_def)

lemma invariants_first_event:
  assumes "signup_invariants df" "e \<in> set df"
  shows "\<exists>e1\<in>set df. user_id e1 = user_id e \<and> event_date e1 = signup_date e
                    \<and> signup_date e1 = signup_date e"
proof -
  let ?ds = "set (map event_date (filter (\<lambda>x. user_id x = user_id e) df))"
  have sd: "signup_date e = Min ?ds" using assms by (auto simp: signup_invariants_def)
  have "event_date e \<in> ?ds" using assms(2) by auto
  then have "?ds \<noteq> {}" by auto
  then have "Min ?ds \<in> ?ds" by (intro Min_in) auto
  then obtain e1 where e1: "e1 \<in> set df" "user_id e1 = user_id e" "event_date e1 = Min ?ds"
    by auto
  have "signup_date e1 = Min (set (map event_date (filter (\<lambda>x. user_id x = user_id e1) df)))"
    using assms(1) e1(1) by (auto simp: signup_invariants_def)
  then have "signup_date e1 = Min ?ds" using e1(2) by simp
  then show ?thesis using e1 sd by auto
qed

lemma invariants_same_signup_date:
  assumes "signup_invariants df" "e \<in> set df" "e' \<in> set df" "user_id e = user_id e'"
  shows "signup_date e = signup_date e'"
  using assms by (auto simp: signup_invariants_def)

lemma invariants_has_signup:
  assumes "signup_invariants df" "e \<in> set df"
  shows "\<exists>s\<in>set df. user_id s = user_id e \<and> event_type s = ''signup''"
  using assms by (auto simp: signup_invariants_def)

lemma invariants_active_eq_cohort:
  assumes inv: "signup_invariants df"
  shows "{u. (u, m, 0) \<in> set (user_activity df)}
         = user_id ` {e \<in> set df. event_type e = ''signup'' \<and> signup_month e = m}"
proof (intro set_eqI iffI)
  fix u assume "u \<in> {u. (u, m, 0) \<in> set (user_activity df)}"
  then obtain e where e: "e \<in> set df" "u = user_id e" "signup_month e = m"
    by (auto simp: user_activity_iff)
  from invariants_has_signup[OF inv e(1)] obtain s where
    s: "s \<in> set df" "user_id s = user_id e" "event_type s = ''signup''" by blast
  have "signup_date s = signup_date e"
    using invariants_same_signup_date[OF inv s(1) e(1) s(2)] .
  then have "signup_month s = m" using e(3) by (simp add: signup_month_def)
  then have "s \<in> {e \<in> set df. event_type e = ''signup'' \<and> signup_month e = m}"
    using s by simp
  moreover have "u = user_id s" using s(2) e(2) by simp
  ultimately show "u \<in> user_id ` {e \<in> set df. event_type e = ''signup'' \<and> signup_month e = m}"
    by (rule image_eqI[rotated])
next
  fix u assume "u \<in> user_id ` {e \<in> set df. event_type e = ''signup'' \<and> signup_month e = m}"
  then obtain s where s: "s \<in> set df" "u = user_id s" "signup_month s = m" by auto
  from invariants_first_event[OF inv s(1)] obtain e1 where
    e1: "e1 \<in> set df" "user_id e1 = user_id s" "event_date e1 = signup_date s"
        "signup_date e1 = signup_date s" by blast
  have "signup_month e1 = m" "event_month e1 - signup_month e1 = 0"
    using e1 s(3) by (simp_all add: signup_month_def event_month_def)
  then have "u = user_id e1 \<and> m = signup_month e1 \<and> 0 = event_month e1 - signup_month e1"
    using e1(2) s(2) by simp
  then have "(u, m, 0) \<in> set (user_activity df)"
    unfolding user_activity_iff using e1(1) by (rule bexI)
  then show "u \<in> {u. (u, m, 0) \<in> set (user_activity df)}" by simp
qed

lemma retention_full: "n \<noteq> 0 \<Longrightarrow> retention n n = Fin 100"
  by (simp add: retention_def round_half_even_def)

text \<open>
  Claim C4: for every collection that satisfies the invariants of the data model (every
  user has a signup event, and \<open>signup_date\<close> is the minimum event date of the user), every
  cohort month that appears in the retention matrix has a positive cohort size and
  retention exactly 100.0 at period 0.
\<close>

theorem cohort_month_zero_full:
  assumes "signup_invariants df"
    and "((m, p), v) \<in> set (compute_cohort_retention df)"
  shows "map_of (compute_cohort_retention df) (m, 0) = Some (Fin 100)
         \<and> (\<exists>n. (m, n) \<in> set (cohort_sizes df) \<and> 0 < n)"
proof -
  define B where "B = user_id ` {e \<in> set df. event_type e = ''signup'' \<and> signup_month e = m}"
  define n where "n = int (card B)"
  from assms(2) obtain n0 where n0: "(m, n0) \<in> set (cohort_sizes df)"
    unfolding cohort_retention_iff by blast
  then have ex: "\<exists>e\<in>set df. event_type e = ''signup'' \<and> signup_month e = m"
    unfolding cohort_sizes_iff by blast
  have cs: "(m, k) \<in> set (cohort_sizes df) \<longleftrightarrow> k = n" for k
    unfolding cohort_sizes_iff n_def B_def using ex by blast
  have "finite B" by (simp add: B_def)
  moreover have ne: "B \<noteq> {}" using ex by (auto simp: B_def)
  ultimately have "0 < card B" by (simp add: card_gt_0_iff)
  then have npos: "0 < n" by (simp add: n_def)
  have act: "{u. (u, m, 0) \<in> set (user_activity df)} = B"
    unfolding B_def by (rule invariants_active_eq_cohort[OF assms(1)])
  have exu: "\<exists>u. (u, m, 0) \<in> set (user_activity df)" using act ne by blast
  have cd: "((m, 0), a) \<in> set (cohort_data df) \<longleftrightarrow> a = n" for a
    unfolding cohort_data_iff act n_def using exu by blast
  have r100: "retention n n = Fin 100"
    using npos by (intro retention_full) simp
  have val: "((m, 0), w) \<in> set (compute_cohort_retention df) \<longleftrightarrow> w = Fin 100" for w
    unfolding cohort_retention_iff cd cs using r100 by auto
  then have "((m, 0), Fin 100) \<in> set (compute_cohort_retention df)" by simp
  from weak_map_of_SomeI[OF this]
  obtain w where w: "map_of (compute_cohort_retention df) (m, 0) = Some w" by blast
  then have "((m, 0), w) \<in> set (compute_cohort_retention df)" by (rule map_of_SomeD)
  then have "w = Fin 100" using val by simp
  moreover have "(m, n) \<in> set (cohort_sizes df)" using cs by simp
  ultimately show ?thesis using w npos by blast
qed

lemma two_users_invariants: "signup_invariants two_users"
  by (simp add: signup_invariants_def two_users_def mk_event_def)

theorem cohort_month_zero_full_witness:
  "signup_invariants two_users
   \<and> ((23640, 1), Fin 50) \<in> set (compute_cohort_retention two_users)
   \<and> map_of (compute_cohort_retention two_users) (23640, 0) = Some (Fin 100)"
proof -
  have h: "((23640, 1), Fin 50) \<in> set (compute_cohort_retention two_users)"
    by (simp add: two_users_matrix)
  from cohort_month_zero_full [OF two_users_invariants h]
  have "map_of (compute_cohort_retention two_users) (23640, 0) = Some (Fin 100)" by (rule conjunct1)
  with two_users_invariants h show ?thesis by (intro conjI)
qed

end
